theory Spec2Isabelle
  imports Complex_Main "HOL-Library.Multiset" "HOL-Library.List_Lexorder" "HOL-Library.Char_ord"
begin

section \<open>The AI system testing framework (test\_framework\_design.py)\<close>

text \<open>
  Conventions of the embedding.
  \<^item> Python floats are modelled as \<^typ>\<open>real\<close>: rounding is not modelled.
  \<^item> A Python \<open>dict\<close> is an association list in insertion order with distinct keys;
    \<open>d[k] = v\<close> is \<open>dict_set\<close>.
  \<^item> A value that may be Python's \<open>None\<close> is an \<open>option\<close>.
  \<^item> An exception (a subclass of \<open>Exception\<close>) is a value of type \<open>exn\<close>; a function
    that may raise returns \<open>exn + 'a\<close>, with \<open>Inl\<close> the raised exception. An awaited
    call may also raise an exception outside \<open>Exception\<close> (\<open>asyncio.CancelledError\<close>):
    it returns \<open>raised + 'a\<close>.
  \<^item> The type \<open>json\<close> holds the values that \<open>json.dumps\<close> serialises. A configuration
    whose \<open>response_schema\<close> holds any other object is outside the model: on it
    \<open>get_config_hash\<close> raises \<open>TypeError\<close>, wherever it is called.
  \<^item> Library functions (\<open>str\<close>, \<open>json.loads\<close>, \<open>float\<close>, \<open>re.search\<close>, \<open>hashlib.md5\<close>,
    \<open>repr\<close> of a float, the JSON string escape, the format \<open>.1%\<close>) are fields of the record \<open>pylib\<close>.
  \<^item> The clock, the capability under test and \<open>asyncio.sleep\<close> act on a world \<open>'w\<close>
    that is passed through every call.
\<close>

subsection \<open>Exceptions and library functions\<close>

datatype exn =
    KeyError string
  | ZeroDivisionError
  | StatisticsError string
  | OtherError string

fun str_exn :: "exn \<Rightarrow> string" where
  "str_exn (KeyError k) = [CHR 0x27] @ k @ [CHR 0x27]"
| "str_exn ZeroDivisionError = ''division by zero''"
| "str_exn (StatisticsError m) = m"
| "str_exn (OtherError m) = m"

text \<open>
  What an awaited call may raise: an exception that \<open>except Exception\<close> catches, or one
  that it does not catch, given by its name (\<open>asyncio.CancelledError\<close> is delivered at an
  \<open>await\<close> and derives from \<open>BaseException\<close> only).
\<close>

datatype raised =
    Exception exn
  | BaseException string

record 'o pylib =
  py_str :: "'o \<Rightarrow> string"
  py_strip :: "string \<Rightarrow> string"
  json_loads_ok :: "string \<Rightarrow> bool"
  float_ok :: "string \<Rightarrow> bool"
  re_search :: "string \<Rightarrow> string \<Rightarrow> exn + bool"
  float_repr :: "real \<Rightarrow> string"
  encode_basestring_ascii :: "string \<Rightarrow> string"
  md5_hexdigest :: "string \<Rightarrow> string"
  format_percent :: "real \<Rightarrow> string"

text \<open>\<open>str(output)\<close>, where the output may be \<open>None\<close>.\<close>

fun str_output :: "'o pylib \<Rightarrow> 'o option \<Rightarrow> string" where
  "str_output lib None = ''None''"
| "str_output lib (Some x) = py_str lib x"

subsection \<open>Dictionaries in insertion order\<close>

fun dict_set :: "'k \<Rightarrow> 'v \<Rightarrow> ('k \<times> 'v) list \<Rightarrow> ('k \<times> 'v) list" where
  "dict_set k v [] = [(k, v)]"
| "dict_set k v ((k', v') # d) = (if k = k' then (k, v) # d else (k', v') # dict_set k v d)"

subsection \<open>statistics.mean and statistics.stdev\<close>

definition statistics_mean :: "real list \<Rightarrow> exn + real" where
  "statistics_mean xs =
     (if xs = [] then Inl (StatisticsError ''mean requires at least one data point'')
      else Inr (sum_list xs / real (length xs)))"

definition statistics_stdev :: "real list \<Rightarrow> exn + real" where
  "statistics_stdev xs =
     (if length xs < 2 then Inl (StatisticsError ''variance requires at least two data points'')
      else let m = sum_list xs / real (length xs)
           in Inr (sqrt (sum_list (map (\<lambda>x. (x - m)\<^sup>2) xs) / real (length xs - 1))))"

subsection \<open>AIModelConfiguration and get\_config\_hash\<close>

datatype json =
    JNull
  | JBool bool
  | JInt int
  | JFloat real
  | JStr string
  | JList "json list"
  | JDict "(string \<times> json) list"

record AIModelConfiguration =
  model_id :: string
  model_version :: string
  temperature :: real
  top_k :: "int option"
  top_p :: "real option"
  max_output_tokens :: int
  system_instruction :: "string option"
  response_format :: string
  response_schema :: "(string \<times> json) list option"

fun json_opt :: "('a \<Rightarrow> json) \<Rightarrow> 'a option \<Rightarrow> json" where
  "json_opt f None = JNull"
| "json_opt f (Some x) = f x"

text \<open>\<open>dataclasses.asdict\<close>: the fields in declaration order.\<close>

definition asdict :: "AIModelConfiguration \<Rightarrow> (string \<times> json) list" where
  "asdict c =
     [(''model_id'', JStr (model_id c)),
      (''model_version'', JStr (model_version c)),
      (''temperature'', JFloat (temperature c)),
      (''top_k'', json_opt JInt (top_k c)),
      (''top_p'', json_opt JFloat (top_p c)),
      (''max_output_tokens'', JInt (max_output_tokens c)),
      (''system_instruction'', json_opt JStr (system_instruction c)),
      (''response_format'', JStr (response_format c)),
      (''response_schema'', json_opt JDict (response_schema c))]"

fun digit_char :: "nat \<Rightarrow> char" where
  "digit_char n = char_of (48 + n)"

fun nat_repr :: "nat \<Rightarrow> string" where
  "nat_repr n = (if n < 10 then [digit_char n] else nat_repr (n div 10) @ [digit_char (n mod 10)])"

definition int_repr :: "int \<Rightarrow> string" where
  "int_repr i = (if i < 0 then ''-'' @ nat_repr (nat (- i)) else nat_repr (nat i))"

fun join :: "string \<Rightarrow> string list \<Rightarrow> string" where
  "join sep [] = []"
| "join sep [x] = x"
| "join sep (x # y # ys) = x @ sep @ join sep (y # ys)"

text \<open>
  \<open>json.dumps(v, sort_keys=True)\<close> with the default separators: the items of every
  dictionary are sorted by key before they are written.
\<close>

function (sequential) json_dumps :: "'o pylib \<Rightarrow> json \<Rightarrow> string" where
  "json_dumps lib JNull = ''null''"
| "json_dumps lib (JBool b) = (if b then ''true'' else ''false'')"
| "json_dumps lib (JInt i) = int_repr i"
| "json_dumps lib (JFloat x) = float_repr lib x"
| "json_dumps lib (JStr s) = encode_basestring_ascii lib s"
| "json_dumps lib (JList vs) = ''['' @ join '', '' (map (json_dumps lib) vs) @ '']''"
| "json_dumps lib (JDict kvs) =
     ''{'' @ join '', ''
        (map (\<lambda>kv. encode_basestring_ascii lib (fst kv) @ '': '' @ json_dumps lib (snd kv))
             (sort_key fst kvs)) @ ''}''"
  by pat_completeness auto
termination
proof (relation "measure (\<lambda>(lib, v). size v)", goal_cases)
  case 1
  show ?case by simp
next
  case (2 lib vs x)
  then show ?case by (simp add: less_Suc_eq_le size_list_estimation')
next
  case (3 lib kvs kv)
  then have "kv \<in> set kvs" by simp
  then have "size_prod (\<lambda>_. 0) size kv \<le> size_list (size_prod (\<lambda>_. 0) size) kvs"
    by (simp add: size_list_estimation')
  then show ?case by (cases kv) (simp add: less_Suc_eq_le)
qed

definition get_config_hash :: "'o pylib \<Rightarrow> AIModelConfiguration \<Rightarrow> string" where
  "get_config_hash lib c =
     (let config_string = json_dumps lib (JDict (asdict c))
      in take 8 (md5_hexdigest lib config_string))"

subsection \<open>TestCase, TestResult and the system under test\<close>

text \<open>
  What a custom validation function returns: a dictionary (each key may be absent, the
  value of \<open>valid\<close> is read for its truth value) or anything else (read for its truth
  value).
\<close>

datatype custom_result =
    CustomDict "bool option" "string list option" "real option"
  | CustomOther bool

text \<open>
  The validation function is called as \<open>validation_function(output, test_case)\<close> with the
  test case that holds it; the field is that function with the test case applied.
\<close>

record ('o, 'i) TestCase =
  id_tc :: string
  name_tc :: string
  input_data :: 'i
  expected_output_pattern :: "string option"
  expected_output_type :: string
  validation_function :: "('o option \<Rightarrow> exn + custom_result) option"
  difficulty_level :: string
  category :: string
  metadata :: "(string \<times> json) list"

text \<open>The dictionary returned by \<open>validate_output\<close>.\<close>

record validation_result =
  vr_valid :: bool
  vr_issues :: "string list"
  vr_quality_score :: real

record 'o TestResult =
  test_case_id :: string
  model_config_hash :: string
  execution_timestamp :: string
  success :: bool
  output_tr :: "'o option"
  execution_time_ms :: real
  error_message :: "string option"
  quality_score :: "real option"
  validation_details :: "validation_result option"

text \<open>
  The dictionary returned by \<open>call_ai_system\<close>: the truth value of \<open>.get("success")\<close>, the
  value under \<open>"output"\<close> and the value under \<open>"error"\<close> (for both, \<open>None\<close>: no such key;
  \<open>Some None\<close>: the key holds Python's \<open>None\<close>).
\<close>

record 'o ai_response =
  resp_success :: bool
  resp_output :: "'o option option"
  resp_error :: "string option option"

record ('o, 'i, 'w) AISystemInterface =
  call_ai_system :: "AIModelConfiguration \<Rightarrow> 'i \<Rightarrow> 'w \<Rightarrow> (raised + 'o ai_response) \<times> 'w"
  validate_output :: "'o option \<Rightarrow> ('o, 'i) TestCase \<Rightarrow> exn + validation_result"

record 'w runtime =
  time_time :: "'w \<Rightarrow> real \<times> 'w"
  utcnow_isoformat :: "'w \<Rightarrow> string \<times> 'w"
  asyncio_sleep :: "real \<Rightarrow> 'w \<Rightarrow> 'w"

subsection \<open>ProductionAISystem.validate\_output\<close>

definition fail_check :: "string list \<Rightarrow> real \<Rightarrow> validation_result \<Rightarrow> validation_result" where
  "fail_check new_issues multiplier vr =
     vr\<lparr>vr_valid := False, vr_issues := vr_issues vr @ new_issues,
        vr_quality_score := vr_quality_score vr * multiplier\<rparr>"

text \<open>Basic type validation.\<close>

definition type_validation ::
  "'o pylib \<Rightarrow> 'o option \<Rightarrow> ('o, 'i) TestCase \<Rightarrow> validation_result \<Rightarrow> validation_result" where
  "type_validation lib out tc vr =
     (if expected_output_type tc \<noteq> ''any'' then
        if expected_output_type tc = ''json'' then
          (if json_loads_ok lib (str_output lib out) then vr
           else fail_check [''Output is not valid JSON''] 0.5 vr)
        else if expected_output_type tc = ''numeric'' then
          (if float_ok lib (py_strip lib (str_output lib out)) then vr
           else fail_check [''Output is not numeric''] 0.5 vr)
        else vr
      else vr)"

text \<open>Pattern validation; \<open>re.search\<close> raises on a pattern that does not compile.\<close>

definition pattern_validation ::
  "'o pylib \<Rightarrow> 'o option \<Rightarrow> ('o, 'i) TestCase \<Rightarrow> validation_result \<Rightarrow> exn + validation_result" where
  "pattern_validation lib out tc vr =
     (case expected_output_pattern tc of
        None \<Rightarrow> Inr vr
      | Some pat \<Rightarrow>
          if pat = [] then Inr vr
          else (case re_search lib pat (str_output lib out) of
                  Inl e \<Rightarrow> Inl e
                | Inr found \<Rightarrow>
                    if \<not> found
                    then Inr (fail_check [''Output does not match pattern: '' @ pat] 0.7 vr)
                    else Inr vr))"

text \<open>Custom validation function; every exception it raises is caught.\<close>

definition custom_validation ::
  "'o option \<Rightarrow> ('o, 'i) TestCase \<Rightarrow> validation_result \<Rightarrow> validation_result" where
  "custom_validation out tc vr =
     (case validation_function tc of
        None \<Rightarrow> vr
      | Some f \<Rightarrow>
          (case f out of
             Inr (CustomDict v iss qm) \<Rightarrow>
               (let vr1 = (if \<not> (case v of None \<Rightarrow> True | Some b \<Rightarrow> b)
                           then vr\<lparr>vr_valid := False,
                                   vr_issues := vr_issues vr @ (case iss of None \<Rightarrow> [] | Some l \<Rightarrow> l)\<rparr>
                           else vr)
                in vr1\<lparr>vr_quality_score :=
                          vr_quality_score vr1 * (case qm of None \<Rightarrow> 1.0 | Some m \<Rightarrow> m)\<rparr>)
           | Inr (CustomOther truthy) \<Rightarrow>
               (if \<not> truthy then fail_check [''Custom validation failed''] 0.3 vr else vr)
           | Inl e \<Rightarrow>
               vr\<lparr>vr_issues := vr_issues vr @ [''Validation function error: '' @ str_exn e],
                  vr_quality_score := vr_quality_score vr * 0.8\<rparr>))"

definition ProductionAISystem_validate_output ::
  "'o pylib \<Rightarrow> 'o option \<Rightarrow> ('o, 'i) TestCase \<Rightarrow> exn + validation_result" where
  "ProductionAISystem_validate_output lib out tc =
     (let validation_result = \<lparr>vr_valid = True, vr_issues = [], vr_quality_score = 1.0\<rparr>;
          validation_result = type_validation lib out tc validation_result
      in case pattern_validation lib out tc validation_result of
           Inl e \<Rightarrow> Inl e
         | Inr validation_result \<Rightarrow> Inr (custom_validation out tc validation_result))"

subsection \<open>AISystemTester.run\_single\_test\<close>

text \<open>
  The body of the \<open>try\<close> block; \<open>Inl\<close> is what is raised inside it: by the awaited call
  of the capability, by the subscript \<open>ai_response["output"]\<close>, or by the validator.
\<close>

definition run_single_test_try ::
  "'o pylib \<Rightarrow> 'w runtime \<Rightarrow> ('o, 'i, 'w) AISystemInterface \<Rightarrow> AIModelConfiguration \<Rightarrow>
   ('o, 'i) TestCase \<Rightarrow> real \<Rightarrow> 'w \<Rightarrow> (raised + 'o TestResult) \<times> 'w" where
  "run_single_test_try lib rt sys config test_case start_time w0 =
     (case call_ai_system sys config (input_data test_case) w0 of
        (Inl x, w1) \<Rightarrow> (Inl x, w1)
      | (Inr ai_response, w1) \<Rightarrow>
          (case time_time rt w1 of
             (t1, w2) \<Rightarrow>
               (let execution_time = (t1 - start_time) * 1000
                in if resp_success ai_response then
                     (case resp_output ai_response of
                        None \<Rightarrow> (Inl (Exception (KeyError ''output'')), w2)
                      | Some out \<Rightarrow>
                          (case validate_output sys out test_case of
                             Inl e \<Rightarrow> (Inl (Exception e), w2)
                           | Inr validation_result \<Rightarrow>
                               (case utcnow_isoformat rt w2 of
                                  (ts, w3) \<Rightarrow>
                                    (Inr \<lparr>test_case_id = id_tc test_case,
                                          model_config_hash = get_config_hash lib config,
                                          execution_timestamp = ts,
                                          success = vr_valid validation_result,
                                          output_tr = out,
                                          execution_time_ms = execution_time,
                                          error_message = None,
                                          quality_score = Some (vr_quality_score validation_result),
                                          validation_details = Some validation_result\<rparr>, w3))))
                   else
                     (case utcnow_isoformat rt w2 of
                        (ts, w3) \<Rightarrow>
                          (Inr \<lparr>test_case_id = id_tc test_case,
                                model_config_hash = get_config_hash lib config,
                                execution_timestamp = ts,
                                success = False,
                                output_tr = None,
                                execution_time_ms = execution_time,
                                error_message =
                                  (case resp_error ai_response of
                                     None \<Rightarrow> Some ''Unknown error'' | Some v \<Rightarrow> v),
                                quality_score = None,
                                validation_details = None\<rparr>, w3)))))"

text \<open>
  The whole function: \<open>except Exception as e\<close> turns an exception of the class
  \<open>Exception\<close> into a result; any other one reaches the caller.
\<close>

definition run_single_test ::
  "'o pylib \<Rightarrow> 'w runtime \<Rightarrow> ('o, 'i, 'w) AISystemInterface \<Rightarrow> AIModelConfiguration \<Rightarrow>
   ('o, 'i) TestCase \<Rightarrow> 'w \<Rightarrow> (raised + 'o TestResult) \<times> 'w" where
  "run_single_test lib rt sys config test_case w =
     (case time_time rt w of
        (start_time, w0) \<Rightarrow>
          (case run_single_test_try lib rt sys config test_case start_time w0 of
             (Inr r, w1) \<Rightarrow> (Inr r, w1)
           | (Inl (BaseException b), w1) \<Rightarrow> (Inl (BaseException b), w1)
           | (Inl (Exception e), w1) \<Rightarrow>
               (case time_time rt w1 of
                  (t1, w2) \<Rightarrow>
                    (case utcnow_isoformat rt w2 of
                       (ts, w3) \<Rightarrow>
                         (Inr \<lparr>test_case_id = id_tc test_case,
                               model_config_hash = get_config_hash lib config,
                               execution_timestamp = ts,
                               success = False,
                               output_tr = None,
                               execution_time_ms = (t1 - start_time) * 1000,
                               error_message = Some (str_exn e),
                               quality_score = None,
                               validation_details = None\<rparr>, w3)))))"

subsection \<open>AISystemTester.run\_statistical\_validation\<close>

record 'o statistical_result =
  stat_test_case_id :: string
  stat_config_hash :: string
  stat_num_runs :: int
  stat_success_rate :: real
  stat_avg_execution_time_ms :: real
  stat_execution_time_std :: real
  stat_avg_quality_score :: real
  stat_quality_score_std :: real
  stat_consistency_score :: real
  stat_unique_outputs :: nat
  stat_individual_results :: "'o TestResult list"

text \<open>The loop \<open>for run in range(num_runs)\<close>, with the pause after every trial.\<close>

fun run_trials ::
  "'o pylib \<Rightarrow> 'w runtime \<Rightarrow> ('o, 'i, 'w) AISystemInterface \<Rightarrow> AIModelConfiguration \<Rightarrow>
   ('o, 'i) TestCase \<Rightarrow> nat \<Rightarrow> 'w \<Rightarrow> (raised + 'o TestResult list) \<times> 'w" where
  "run_trials lib rt sys config test_case 0 w = (Inr [], w)"
| "run_trials lib rt sys config test_case (Suc n) w =
     (case run_single_test lib rt sys config test_case w of
        (Inl e, w1) \<Rightarrow> (Inl e, w1)
      | (Inr result, w1) \<Rightarrow>
          (case run_trials lib rt sys config test_case n (asyncio_sleep rt 1 w1) of
             (Inl e, w2) \<Rightarrow> (Inl e, w2)
           | (Inr results, w2) \<Rightarrow> (Inr (result # results), w2)))"

text \<open>The statistical analysis of the collected results.\<close>

definition quality_scores_of :: "'o TestResult list \<Rightarrow> real list" where
  "quality_scores_of results = List.map_filter quality_score results"

definition unique_outputs_of :: "'o pylib \<Rightarrow> 'o TestResult list \<Rightarrow> string set" where
  "unique_outputs_of lib results =
     set (map (\<lambda>r. str_output lib (output_tr r)) (filter (\<lambda>r. output_tr r \<noteq> None) results))"

definition statistical_analysis ::
  "'o pylib \<Rightarrow> AIModelConfiguration \<Rightarrow> ('o, 'i) TestCase \<Rightarrow> int \<Rightarrow> 'o TestResult list \<Rightarrow>
   exn + 'o statistical_result" where
  "statistical_analysis lib config test_case num_runs results =
     (if results = [] then Inl ZeroDivisionError
      else
        let success_rate = real (length (filter success results)) / real (length results);
            execution_times = map execution_time_ms results;
            quality_scores = quality_scores_of results;
            unique_outputs = unique_outputs_of lib results;
            consistency_score =
              (if unique_outputs \<noteq> {} then 1.0 / real (card unique_outputs) else 0.0)
        in case (if execution_times \<noteq> [] then statistics_mean execution_times else Inr 0) of
             Inl e \<Rightarrow> Inl e
           | Inr avg_time \<Rightarrow>
         (case (if length execution_times > 1 then statistics_stdev execution_times else Inr 0) of
             Inl e \<Rightarrow> Inl e
           | Inr time_std \<Rightarrow>
         (case (if quality_scores \<noteq> [] then statistics_mean quality_scores else Inr 0) of
             Inl e \<Rightarrow> Inl e
           | Inr avg_quality \<Rightarrow>
         (case (if length quality_scores > 1 then statistics_stdev quality_scores else Inr 0) of
             Inl e \<Rightarrow> Inl e
           | Inr quality_std \<Rightarrow>
               Inr \<lparr>stat_test_case_id = id_tc test_case,
                    stat_config_hash = get_config_hash lib config,
                    stat_num_runs = num_runs,
                    stat_success_rate = success_rate,
                    stat_avg_execution_time_ms = avg_time,
                    stat_execution_time_std = time_std,
                    stat_avg_quality_score = avg_quality,
                    stat_quality_score_std = quality_std,
                    stat_consistency_score = consistency_score,
                    stat_unique_outputs = card unique_outputs,
                    stat_individual_results = results\<rparr>))))"

definition run_statistical_validation ::
  "'o pylib \<Rightarrow> 'w runtime \<Rightarrow> ('o, 'i, 'w) AISystemInterface \<Rightarrow> AIModelConfiguration \<Rightarrow>
   ('o, 'i) TestCase \<Rightarrow> int \<Rightarrow> 'w \<Rightarrow> (raised + 'o statistical_result) \<times> 'w" where
  "run_statistical_validation lib rt sys config test_case num_runs w =
     (case run_trials lib rt sys config test_case (nat num_runs) w of
        (Inl x, w1) \<Rightarrow> (Inl x, w1)
      | (Inr results, w1) \<Rightarrow>
          (case statistical_analysis lib config test_case num_runs results of
             Inl e \<Rightarrow> (Inl (Exception e), w1)
           | Inr s \<Rightarrow> (Inr s, w1)))"

subsection \<open>The results of a test suite\<close>

text \<open>
  An entry of \<open>test_case_results\<close>: the statistical result, or for a single run the
  dictionary with \<open>success_rate\<close> and \<open>individual_results\<close> only.
\<close>

datatype 'o test_case_entry =
    Statistical "'o statistical_result"
  | SingleRun real "'o TestResult list"

fun entry_success_rate :: "'o test_case_entry \<Rightarrow> real" where
  "entry_success_rate (Statistical s) = stat_success_rate s"
| "entry_success_rate (SingleRun rate rs) = rate"

text \<open>\<open>r.get("consistency_score", 0)\<close>\<close>

fun entry_consistency_score :: "'o test_case_entry \<Rightarrow> real" where
  "entry_consistency_score (Statistical s) = stat_consistency_score s"
| "entry_consistency_score (SingleRun rate rs) = 0"

record overall_metrics =
  om_overall_success_rate :: real
  om_tests_passed :: nat
  om_tests_failed :: nat
  om_avg_consistency :: real

record 'o config_result =
  cr_configuration :: AIModelConfiguration
  cr_test_case_results :: "(string \<times> 'o test_case_entry) list"
  cr_overall_metrics :: overall_metrics

text \<open>The overall metrics that \<open>run_comprehensive_test_suite\<close> stores for one configuration.\<close>

definition calculate_overall_metrics ::
  "(string \<times> 'o test_case_entry) list \<Rightarrow> exn + overall_metrics" where
  "calculate_overall_metrics test_results =
     (case statistics_mean (map (\<lambda>kv. entry_success_rate (snd kv)) test_results) of
        Inl e \<Rightarrow> Inl e
      | Inr overall_success_rate \<Rightarrow>
          (case statistics_mean (map (\<lambda>kv. entry_consistency_score (snd kv)) test_results) of
             Inl e \<Rightarrow> Inl e
           | Inr avg_consistency \<Rightarrow>
               Inr \<lparr>om_overall_success_rate = overall_success_rate,
                    om_tests_passed =
                      length (filter (\<lambda>kv. entry_success_rate (snd kv) \<ge> 0.8) test_results),
                    om_tests_failed =
                      length (filter (\<lambda>kv. entry_success_rate (snd kv) < 0.8) test_results),
                    om_avg_consistency = avg_consistency\<rparr>))"

subsection \<open>AISystemTester.\_analyze\_model\_comparison\<close>

record config_performance =
  cp_config_hash :: string
  cp_model_id :: string
  cp_overall_success_rate :: real
  cp_avg_consistency :: real
  cp_tests_passed :: nat

record comparison =
  best_overall_configuration :: "config_performance option"
  configuration_rankings :: "config_performance list"
  performance_insights :: "string list"

definition config_performance_of :: "string \<times> 'o config_result \<Rightarrow> config_performance" where
  "config_performance_of item =
     \<lparr>cp_config_hash = fst item,
      cp_model_id = model_id (cr_configuration (snd item)),
      cp_overall_success_rate = om_overall_success_rate (cr_overall_metrics (snd item)),
      cp_avg_consistency = om_avg_consistency (cr_overall_metrics (snd item)),
      cp_tests_passed = om_tests_passed (cr_overall_metrics (snd item))\<rparr>"

text \<open>
  \<open>list.sort(key=..., reverse=True)\<close> is a stable sort into descending order of the key:
  entries with equal keys keep their order. The stable insertion sort on the negated key
  computes the same list.
\<close>

definition sort_by_success_rate_reverse :: "config_performance list \<Rightarrow> config_performance list" where
  "sort_by_success_rate_reverse xs = sort_key (\<lambda>x. - cp_overall_success_rate x) xs"

definition analyze_model_comparison ::
  "'o pylib \<Rightarrow> (string \<times> 'o config_result) list \<Rightarrow> comparison" where
  "analyze_model_comparison lib config_results =
     (let config_performance = map config_performance_of config_results;
          config_performance = sort_by_success_rate_reverse config_performance
      in case config_performance of
           [] \<Rightarrow> \<lparr>best_overall_configuration = None,
                  configuration_rankings = config_performance,
                  performance_insights = []\<rparr>
         | best # _ \<Rightarrow>
             (let best_rate = cp_overall_success_rate best;
                  worst_rate = cp_overall_success_rate (last config_performance);
                  insights1 =
                    (if best_rate - worst_rate > 0.2
                     then [''Significant performance difference: '' @ format_percent lib best_rate
                           @ '' vs '' @ format_percent lib worst_rate]
                     else []);
                  consistency_scores = map cp_avg_consistency config_performance;
                  insights2 =
                    (if Max (set consistency_scores) - Min (set consistency_scores) > 0.3
                     then [''Large consistency variations between configurations'']
                     else [])
              in \<lparr>best_overall_configuration = Some best,
                  configuration_rankings = config_performance,
                  performance_insights = insights1 @ insights2\<rparr>))"

subsection \<open>AISystemTester.\_analyze\_test\_case\_difficulty\<close>

text \<open>
  \<open>if k not in d: d[k] = []\<close> followed by \<open>d[k].append(v)\<close>.
\<close>

fun dict_append :: "'k \<Rightarrow> 'v \<Rightarrow> ('k \<times> 'v list) list \<Rightarrow> ('k \<times> 'v list) list" where
  "dict_append k v [] = [(k, [v])]"
| "dict_append k v ((k', vs) # d) =
     (if k = k' then (k', vs @ [v]) # d else (k', vs) # dict_append k v d)"

text \<open>Aggregate results by test case: the two nested loops.\<close>

definition test_case_performance_of ::
  "(string \<times> 'o config_result) list \<Rightarrow> (string \<times> real list) list" where
  "test_case_performance_of config_results =
     fold (\<lambda>item perf.
             fold (\<lambda>tr perf'. dict_append (fst tr) (entry_success_rate (snd tr)) perf')
                  (cr_test_case_results (snd item)) perf)
          config_results []"

record difficulty_entry =
  da_avg_success_rate :: real
  da_consistency_across_models :: real
  da_difficulty_assessment :: string
  da_success_rates_by_config :: "real list"

definition difficulty_level_of :: "real \<Rightarrow> string" where
  "difficulty_level_of avg_success_rate =
     (if avg_success_rate > 0.8 then ''easy''
      else if avg_success_rate > 0.5 then ''medium'' else ''hard'')"

definition analyze_success_rates :: "real list \<Rightarrow> exn + difficulty_entry" where
  "analyze_success_rates success_rates =
     (case statistics_mean success_rates of
        Inl e \<Rightarrow> Inl e
      | Inr avg_success_rate \<Rightarrow>
          (case (if length success_rates > 1
                 then (case statistics_stdev success_rates of
                         Inl e \<Rightarrow> Inl e | Inr sd \<Rightarrow> Inr (1.0 - sd))
                 else Inr 1.0) of
             Inl e \<Rightarrow> Inl e
           | Inr consistency \<Rightarrow>
               Inr \<lparr>da_avg_success_rate = avg_success_rate,
                    da_consistency_across_models = consistency,
                    da_difficulty_assessment = difficulty_level_of avg_success_rate,
                    da_success_rates_by_config = success_rates\<rparr>))"

text \<open>The loop over \<open>test_case_performance.items()\<close>; an exception ends it.\<close>

fun analyze_items ::
  "(string \<times> real list) list \<Rightarrow> (string \<times> difficulty_entry) list \<Rightarrow>
   exn + (string \<times> difficulty_entry) list" where
  "analyze_items [] difficulty_analysis = Inr difficulty_analysis"
| "analyze_items ((tid, success_rates) # rest) difficulty_analysis =
     (case analyze_success_rates success_rates of
        Inl e \<Rightarrow> Inl e
      | Inr entry \<Rightarrow> analyze_items rest (dict_set tid entry difficulty_analysis))"

definition analyze_test_case_difficulty ::
  "(string \<times> 'o config_result) list \<Rightarrow> exn + (string \<times> difficulty_entry) list" where
  "analyze_test_case_difficulty config_results =
     analyze_items (test_case_performance_of config_results) []"

subsection \<open>Notions of the specification\<close>

text \<open>
  The definitions of this subsection are not translations of the code: they state, in the
  words of the specification, what the properties below compare the code with.
\<close>

text \<open>
  The multiplier of each check of the Outcome Validator: 0.5 for a failed type check, 0.7
  for a failed pattern check; for the custom validation the multiplier that the function
  returns in its dictionary (1 when it gives none), 0.3 for a false verdict that is not a
  dictionary, 0.8 when the function raises; 1 otherwise.
\<close>

definition type_check_multiplier :: "'o pylib \<Rightarrow> 'o option \<Rightarrow> ('o, 'i) TestCase \<Rightarrow> real" where
  "type_check_multiplier lib out tc =
     (if (expected_output_type tc = ''json'' \<and> \<not> json_loads_ok lib (str_output lib out))
         \<or> (expected_output_type tc = ''numeric'' \<and> \<not> float_ok lib (py_strip lib (str_output lib out)))
      then 0.5 else 1)"

definition pattern_check_multiplier :: "'o pylib \<Rightarrow> 'o option \<Rightarrow> ('o, 'i) TestCase \<Rightarrow> real" where
  "pattern_check_multiplier lib out tc =
     (case expected_output_pattern tc of
        None \<Rightarrow> 1
      | Some pat \<Rightarrow> if pat \<noteq> [] \<and> re_search lib pat (str_output lib out) = Inr False then 0.7 else 1)"

definition custom_check_multiplier :: "'o option \<Rightarrow> ('o, 'i) TestCase \<Rightarrow> real" where
  "custom_check_multiplier out tc =
     (case validation_function tc of
        None \<Rightarrow> 1
      | Some f \<Rightarrow>
          (case f out of
             Inl e \<Rightarrow> 0.8
           | Inr (CustomOther truthy) \<Rightarrow> if truthy then 1 else 0.3
           | Inr (CustomDict v iss qm) \<Rightarrow> (case qm of None \<Rightarrow> 1 | Some m \<Rightarrow> m)))"

text \<open>The type check and the pattern check find nothing to object to.\<close>

definition type_check_passes :: "'o pylib \<Rightarrow> 'o option \<Rightarrow> ('o, 'i) TestCase \<Rightarrow> bool" where
  "type_check_passes lib out tc =
     ((expected_output_type tc = ''json'' \<longrightarrow> json_loads_ok lib (str_output lib out)) \<and>
      (expected_output_type tc = ''numeric'' \<longrightarrow> float_ok lib (py_strip lib (str_output lib out))))"

definition pattern_check_passes :: "'o pylib \<Rightarrow> 'o option \<Rightarrow> ('o, 'i) TestCase \<Rightarrow> bool" where
  "pattern_check_passes lib out tc =
     (case expected_output_pattern tc of
        None \<Rightarrow> True
      | Some pat \<Rightarrow> pat = [] \<or> re_search lib pat (str_output lib out) = Inr True)"

text \<open>The arithmetic mean and the sample standard deviation.\<close>

definition mean :: "real list \<Rightarrow> real" where
  "mean xs = sum_list xs / real (length xs)"

definition sample_stdev :: "real list \<Rightarrow> real" where
  "sample_stdev xs = sqrt (sum_list (map (\<lambda>x. (x - mean xs)\<^sup>2) xs) / real (length xs - 1))"

text \<open>The quality scores of the trials that have one, in the order of the trials.\<close>

definition defined_qualities :: "'o TestResult list \<Rightarrow> real list" where
  "defined_qualities results =
     concat (map (\<lambda>r. case quality_score r of None \<Rightarrow> [] | Some q \<Rightarrow> [q]) results)"

text \<open>
  The stringified outputs of the trials that have an output, and \<open>U\<close>, the number of
  distinct ones.
\<close>

definition stringified_outputs :: "'o pylib \<Rightarrow> 'o TestResult list \<Rightarrow> string list" where
  "stringified_outputs lib results =
     concat (map (\<lambda>r. case output_tr r of None \<Rightarrow> [] | Some x \<Rightarrow> [py_str lib x]) results)"

definition distinct_outputs :: "'o pylib \<Rightarrow> 'o TestResult list \<Rightarrow> nat" where
  "distinct_outputs lib results = length (remdups (stringified_outputs lib results))"

text \<open>
  The success rates of one test case across the configurations, in the order of the
  configurations.
\<close>

definition success_rates_for :: "string \<Rightarrow> (string \<times> 'o config_result) list \<Rightarrow> real list" where
  "success_rates_for tid config_results =
     concat (map (\<lambda>item. map (\<lambda>tr. entry_success_rate (snd tr))
                          (filter (\<lambda>tr. fst tr = tid) (cr_test_case_results (snd item))))
                 config_results)"

text \<open>The order of the difficulty levels: \<open>hard\<close>, \<open>medium\<close>, \<open>easy\<close>.\<close>

definition difficulty_rank :: "string \<Rightarrow> nat" where
  "difficulty_rank d = (if d = ''easy'' then 2 else if d = ''medium'' then 1 else 0)"

text \<open>The entry of the difficulty analysis for a non-empty list of success rates.\<close>

definition difficulty_entry_of :: "real list \<Rightarrow> difficulty_entry" where
  "difficulty_entry_of rates =
     \<lparr>da_avg_success_rate = mean rates,
      da_consistency_across_models = (if 1 < length rates then 1 - sample_stdev rates else 1),
      da_difficulty_assessment = difficulty_level_of (mean rates),
      da_success_rates_by_config = rates\<rparr>"

subsection \<open>A scripted system under test, for concrete runs\<close>

text \<open>
  The concrete runs below use strings as outputs and a small library: \<open>json.loads\<close>
  accepts \<open>{}\<close> only, \<open>float\<close> accepts \<open>4\<close> and \<open>5\<close>, \<open>re.search\<close> looks for a literal
  pattern anywhere in the text and rejects the pattern \<open>(\<close>, the JSON escape adds the
  quotes, and the stand-in for MD5 returns its argument, so that the identifier of a
  configuration is the start of its canonical string. The world is a clock and the list
  of the outcomes that the capability will give, one per call (a response, or what the
  call raises); when the list is empty the call raises a timeout.
\<close>

fun occurs :: "string \<Rightarrow> string \<Rightarrow> bool" where
  "occurs pat [] = (pat = [])"
| "occurs pat (c # cs) = (take (length pat) (c # cs) = pat \<or> occurs pat cs)"

definition example_lib :: "string pylib" where
  "example_lib =
     \<lparr>py_str = (\<lambda>s. s), py_strip = (\<lambda>s. s),
      json_loads_ok = (\<lambda>s. s = ''{}''),
      float_ok = (\<lambda>s. s = ''4'' \<or> s = ''5''),
      re_search = (\<lambda>pat s.
        if pat = ''(''
        then Inl (OtherError ''missing ), unterminated subpattern at position 0'')
        else Inr (occurs pat s)),
      float_repr = (\<lambda>x. if x = 0.3 then ''0.3'' else ''0.95''),
      encode_basestring_ascii = (\<lambda>s. [CHR 0x22] @ s @ [CHR 0x22]),
      md5_hexdigest = (\<lambda>s. s),
      format_percent = (\<lambda>x. ''100.0%'')\<rparr>"

record 'o world =
  clock :: nat
  script :: "(raised + 'o ai_response) list"

definition example_runtime :: "string world runtime" where
  "example_runtime =
     \<lparr>time_time = (\<lambda>w. (real (clock w), w\<lparr>clock := clock w + 1\<rparr>)),
      utcnow_isoformat = (\<lambda>w. (''2025-01-01T00:00:00'', w)),
      asyncio_sleep = (\<lambda>d w. w\<lparr>clock := clock w + 1\<rparr>)\<rparr>"

definition example_system :: "(string, string, string world) AISystemInterface" where
  "example_system =
     \<lparr>call_ai_system = (\<lambda>config inp w.
         case script w of
           [] \<Rightarrow> (Inl (Exception (OtherError ''timeout'')), w)
         | x # xs \<Rightarrow> (x, w\<lparr>script := xs\<rparr>)),
      validate_output = ProductionAISystem_validate_output example_lib\<rparr>"

definition example_config :: AIModelConfiguration where
  "example_config =
     \<lparr>model_id = ''ai-model-pro'', model_version = ''v1.0'', temperature = 0.3,
      top_k = Some 40, top_p = Some 0.95, max_output_tokens = 3000,
      system_instruction = None, response_format = ''text'', response_schema = None\<rparr>"

definition example_test_case :: "(string, string) TestCase" where
  "example_test_case =
     \<lparr>id_tc = ''t1'', name_tc = ''Addition'', input_data = ''2+2'',
      expected_output_pattern = None, expected_output_type = ''numeric'',
      validation_function = None, difficulty_level = ''medium'', category = ''general'',
      metadata = []\<rparr>"

definition ok_response :: "string \<Rightarrow> raised + string ai_response" where
  "ok_response s = Inr \<lparr>resp_success = True, resp_output = Some (Some s), resp_error = None\<rparr>"

definition error_response :: "string option \<Rightarrow> raised + string ai_response" where
  "error_response v = Inr \<lparr>resp_success = False, resp_output = None, resp_error = Some v\<rparr>"

definition example_result :: "bool \<Rightarrow> string option \<Rightarrow> real option \<Rightarrow> string TestResult" where
  "example_result ok out q =
     \<lparr>test_case_id = ''t1'', model_config_hash = ''d41d8cd9'',
      execution_timestamp = ''2025-01-01T00:00:00'', success = ok, output_tr = out,
      execution_time_ms = 1000,
      error_message = (if out = None then Some ''timeout'' else None),
      quality_score = q, validation_details = None\<rparr>"

definition example_stats :: "string \<Rightarrow> real \<Rightarrow> real \<Rightarrow> string statistical_result" where
  "example_stats tid rate cons =
     \<lparr>stat_test_case_id = tid, stat_config_hash = ''d41d8cd9'', stat_num_runs = 5,
      stat_success_rate = rate, stat_avg_execution_time_ms = 1000, stat_execution_time_std = 0,
      stat_avg_quality_score = 1, stat_quality_score_std = 0, stat_consistency_score = cons,
      stat_unique_outputs = 1, stat_individual_results = []\<rparr>"

definition example_config_result :: "(string \<times> real \<times> real) list \<Rightarrow> string config_result" where
  "example_config_result rows =
     (let trs = map (\<lambda>(tid, rate, cons). (tid, Statistical (example_stats tid rate cons))) rows
      in \<lparr>cr_configuration = example_config,
          cr_test_case_results = trs,
          cr_overall_metrics =
            (case calculate_overall_metrics trs of
               Inr m \<Rightarrow> m
             | Inl e \<Rightarrow> \<lparr>om_overall_success_rate = 0, om_tests_passed = 0,
                          om_tests_failed = 0, om_avg_consistency = 0\<rparr>)\<rparr>)"

definition example_suite :: "(string \<times> string config_result) list" where
  "example_suite =
     [(''0a1b2c3d'', example_config_result [(''t1'', 1, 1), (''t2'', 1, 1)]),
      (''4e5f6a7b'', example_config_result [(''t1'', 0, 1), (''t2'', 3 / 5, 1 / 2)])]"

subsection \<open>Auxiliary notions for the grouping by test case\<close>

text \<open>
  The list stored under a key (empty when the key is absent), the invariant of the
  dictionary of success rates (distinct keys, no empty list), and the inner loop of the
  grouping.
\<close>

definition lookup_list :: "('k \<times> 'v list) list \<Rightarrow> 'k \<Rightarrow> 'v list" where
  "lookup_list d k = (case map_of d k of None \<Rightarrow> [] | Some vs \<Rightarrow> vs)"

definition perf_inv :: "('k \<times> 'v list) list \<Rightarrow> bool" where
  "perf_inv d \<longleftrightarrow> distinct (map fst d) \<and> [] \<notin> set (map snd d)"

definition add_results ::
  "(string \<times> 'o test_case_entry) list \<Rightarrow> (string \<times> real list) list \<Rightarrow>
   (string \<times> real list) list" where
  "add_results trs perf =
     fold (\<lambda>tr perf'. dict_append (fst tr) (entry_success_rate (snd tr)) perf') trs perf"

section \<open>Properties\<close>

subsection \<open>Unfolding rules for concrete runs\<close>

lemmas example_defs = example_lib_def example_runtime_def example_system_def
  example_test_case_def ok_response_def error_response_def

lemmas validate_defs = ProductionAISystem_validate_output_def type_validation_def
      pattern_validation_def custom_validation_def fail_check_def
lemmas run_defs = run_single_test_def run_single_test_try_def

lemmas stat_defs = statistical_analysis_def statistics_mean_def statistics_stdev_def
  quality_scores_of_def unique_outputs_of_def List.map_filter_simps Let_def

lemmas suite_defs = example_suite_def example_config_result_def example_stats_def
  calculate_overall_metrics_def statistics_mean_def Let_def

subsection \<open>The quality score of the Outcome Validator\<close>

lemma type_validation_quality:
  "vr_quality_score (type_validation lib out tc vr) = vr_quality_score vr * type_check_multiplier lib out tc"
  by (simp add: type_validation_def type_check_multiplier_def fail_check_def)

lemma pattern_validation_quality:
  "pattern_validation lib out tc vr = Inr vr' \<Longrightarrow>
   vr_quality_score vr' = vr_quality_score vr * pattern_check_multiplier lib out tc"
  by (auto simp: pattern_validation_def pattern_check_multiplier_def fail_check_def
      split: option.splits if_splits sum.splits)

lemma custom_validation_quality:
  "vr_quality_score (custom_validation out tc vr) = vr_quality_score vr * custom_check_multiplier out tc"
  by (auto simp: custom_validation_def custom_check_multiplier_def fail_check_def Let_def
      split: option.splits sum.splits custom_result.splits)

lemma pattern_validation_cases:
  "(\<exists>pat e. expected_output_pattern tc = Some pat \<and> pat \<noteq> [] \<and>
       re_search lib pat (str_output lib out) = Inl e \<and> pattern_validation lib out tc vr = Inl e)
   \<or> (\<exists>vr'. pattern_validation lib out tc vr = Inr vr')"
  by (auto simp: pattern_validation_def split: option.splits sum.splits)

lemma multiplier_bounds:
  "0 \<le> type_check_multiplier lib out tc" "type_check_multiplier lib out tc \<le> 1"
  "0 \<le> pattern_check_multiplier lib out tc" "pattern_check_multiplier lib out tc \<le> 1"
  by (auto simp: type_check_multiplier_def pattern_check_multiplier_def split: option.splits)

text \<open>
  Claim C4, as amended. \<open>validate_output\<close> either propagates the exception that
  \<open>re.search\<close> raised on the pattern, or returns a quality score that is the product of
  the multipliers of the type check, the pattern check and the custom validation. The
  product is not clamped: it lies in \<open>[0, 1]\<close> when the custom multiplier does.
\<close>

theorem validate_output_quality_is_product:
  "(\<exists>pat e. expected_output_pattern tc = Some pat \<and> pat \<noteq> [] \<and>
       re_search lib pat (str_output lib out) = Inl e \<and>
       ProductionAISystem_validate_output lib out tc = Inl e)
   \<or> (\<exists>v. ProductionAISystem_validate_output lib out tc = Inr v \<and>
          vr_quality_score v =
            type_check_multiplier lib out tc * pattern_check_multiplier lib out tc
            * custom_check_multiplier out tc \<and>
          (0 \<le> custom_check_multiplier out tc \<and> custom_check_multiplier out tc \<le> 1
             \<longrightarrow> 0 \<le> vr_quality_score v \<and> vr_quality_score v \<le> 1))"
proof -
  let ?vr0 = "\<lparr>vr_valid = True, vr_issues = [], vr_quality_score = 1.0\<rparr>"
  let ?vr1 = "type_validation lib out tc ?vr0"
  from pattern_validation_cases [of tc lib out ?vr1]
  show ?thesis
  proof (elim disjE exE conjE)
    fix pat e
    assume "expected_output_pattern tc = Some pat" "pat \<noteq> []"
      "re_search lib pat (str_output lib out) = Inl e"
      "pattern_validation lib out tc ?vr1 = Inl e"
    then show ?thesis
      by (simp add: ProductionAISystem_validate_output_def)
  next
    fix vr2
    assume p: "pattern_validation lib out tc ?vr1 = Inr vr2"
    let ?v = "custom_validation out tc vr2"
    let ?t = "type_check_multiplier lib out tc"
    let ?p = "pattern_check_multiplier lib out tc"
    let ?c = "custom_check_multiplier out tc"
    have r: "ProductionAISystem_validate_output lib out tc = Inr ?v"
      using p by (simp add: ProductionAISystem_validate_output_def)
    have q: "vr_quality_score ?v = ?t * ?p * ?c"
      using pattern_validation_quality [OF p]
      by (simp add: custom_validation_quality type_validation_quality)
    have b: "0 \<le> ?t * ?p" "?t * ?p \<le> 1"
      using multiplier_bounds [of lib out tc] by (simp_all add: mult_le_one)
    have "0 \<le> ?c \<and> ?c \<le> 1 \<longrightarrow> 0 \<le> ?t * ?p * ?c \<and> ?t * ?p * ?c \<le> 1"
      using b by (simp add: mult_le_one)
    with r q show ?thesis by simp
  qed
qed

theorem validate_output_quality_is_product_witness:
  "0 \<le> custom_check_multiplier (Some ''x'')
         (example_test_case\<lparr>expected_output_pattern := Some ''4''\<rparr>) \<and>
   custom_check_multiplier (Some ''x'')
         (example_test_case\<lparr>expected_output_pattern := Some ''4''\<rparr>) \<le> 1 \<and>
   ProductionAISystem_validate_output example_lib (Some ''x'')
     (example_test_case\<lparr>expected_output_pattern := Some ''4''\<rparr>)
   = Inr \<lparr>vr_valid = False,
          vr_issues = [''Output is not numeric'', ''Output does not match pattern: 4''],
          vr_quality_score = 0.5 * 0.7\<rparr>"
  using validate_output_quality_is_product
          [of "example_test_case\<lparr>expected_output_pattern := Some ''4''\<rparr>" example_lib "Some ''x''"]
  by (simp add: example_defs validate_defs custom_check_multiplier_def)

text \<open>
  Claim C4 as stated fails: a custom validation function that returns the quality
  multiplier 2 on an output that passes every check gives the quality score 2.
\<close>

theorem validate_output_quality_counterexample:
  "ProductionAISystem_validate_output example_lib (Some ''4'')
     (example_test_case\<lparr>validation_function :=
        Some (\<lambda>out. Inr (CustomDict (Some True) (Some []) (Some 2)))\<rparr>)
   = Inr \<lparr>vr_valid = True, vr_issues = [], vr_quality_score = 2\<rparr> \<and>
   \<not> vr_quality_score \<lparr>vr_valid = True, vr_issues = [], vr_quality_score = 2\<rparr> \<le> 1"
  by (simp add: example_defs validate_defs)

subsection \<open>A single trial\<close>

lemma type_validation_passes:
  "type_check_passes lib out tc \<Longrightarrow> type_validation lib out tc vr = vr"
  by (auto simp: type_check_passes_def type_validation_def)

lemma pattern_validation_passes:
  "pattern_check_passes lib out tc \<Longrightarrow> pattern_validation lib out tc vr = Inr vr"
  by (auto simp: pattern_check_passes_def pattern_validation_def split: option.splits)

lemma run_single_test_valid_output:
  assumes "call_ai_system sys config (input_data tc) (snd (time_time rt w)) = (Inr resp, w1)"
    and "resp_success resp" and "resp_output resp = Some out"
    and "validate_output sys out tc = Inr v"
  shows "\<exists>r w'. run_single_test lib rt sys config tc w = (Inr r, w') \<and>
           success r = vr_valid v \<and> output_tr r = out \<and>
           quality_score r = Some (vr_quality_score v) \<and> error_message r = None"
  using assms
  by (cases "time_time rt w"; cases "time_time rt w1"; cases "utcnow_isoformat rt (snd (time_time rt w1))")
     (simp add: run_single_test_def run_single_test_try_def Let_def)

lemma run_single_test_call_propagates:
  assumes "call_ai_system sys config (input_data tc) (snd (time_time rt w))
             = (Inl (BaseException b), w1)"
  shows "run_single_test lib rt sys config tc w = (Inl (BaseException b), w1)"
  using assms
  by (cases "time_time rt w") (simp add: run_single_test_def run_single_test_try_def)

lemma run_single_test_call_raises:
  assumes "call_ai_system sys config (input_data tc) (snd (time_time rt w))
             = (Inl (Exception e), w1)"
  shows "\<exists>r w'. run_single_test lib rt sys config tc w = (Inr r, w') \<and>
           \<not> success r \<and> output_tr r = None \<and> error_message r = Some (str_exn e) \<and>
           quality_score r = None"
  using assms
  by (cases "time_time rt w"; cases "time_time rt w1"; cases "utcnow_isoformat rt (snd (time_time rt w1))")
     (simp add: run_single_test_def run_single_test_try_def Let_def)

lemma run_single_test_call_rejected:
  assumes "call_ai_system sys config (input_data tc) (snd (time_time rt w)) = (Inr resp, w1)"
    and "\<not> resp_success resp"
  shows "\<exists>r w'. run_single_test lib rt sys config tc w = (Inr r, w') \<and>
           \<not> success r \<and> output_tr r = None \<and>
           error_message r
             = (case resp_error resp of None \<Rightarrow> Some ''Unknown error'' | Some v \<Rightarrow> v) \<and>
           quality_score r = None"
  using assms
  by (cases "time_time rt w"; cases "time_time rt w1"; cases "utcnow_isoformat rt (snd (time_time rt w1))")
     (simp add: run_single_test_def run_single_test_try_def Let_def)

lemma run_single_test_no_output_key:
  assumes "call_ai_system sys config (input_data tc) (snd (time_time rt w)) = (Inr resp, w1)"
    and "resp_success resp" and "resp_output resp = None"
  shows "\<exists>r w'. run_single_test lib rt sys config tc w = (Inr r, w') \<and>
           \<not> success r \<and> output_tr r = None \<and>
           error_message r = Some (str_exn (KeyError ''output'')) \<and> quality_score r = None"
  using assms
  by (cases "time_time rt w"; cases "time_time rt w1";
      cases "time_time rt (snd (time_time rt w1))";
      cases "utcnow_isoformat rt (snd (time_time rt (snd (time_time rt w1))))")
     (simp add: run_single_test_def run_single_test_try_def Let_def)

lemma run_single_test_validator_raises:
  assumes "call_ai_system sys config (input_data tc) (snd (time_time rt w)) = (Inr resp, w1)"
    and "resp_success resp" and "resp_output resp = Some out"
    and "validate_output sys out tc = Inl e"
  shows "\<exists>r w'. run_single_test lib rt sys config tc w = (Inr r, w') \<and>
           \<not> success r \<and> output_tr r = None \<and> error_message r = Some (str_exn e) \<and>
           quality_score r = None"
  using assms
  by (cases "time_time rt w"; cases "time_time rt w1";
      cases "time_time rt (snd (time_time rt w1))";
      cases "utcnow_isoformat rt (snd (time_time rt (snd (time_time rt w1))))")
     (simp add: run_single_test_def run_single_test_try_def Let_def)

lemma run_single_test_returns:
  assumes "\<And>b w1. call_ai_system sys config (input_data tc) (snd (time_time rt w))
                    \<noteq> (Inl (BaseException b), w1)"
  shows "\<exists>r w'. run_single_test lib rt sys config tc w = (Inr r, w')"
proof (cases "call_ai_system sys config (input_data tc) (snd (time_time rt w))")
  case (Pair res w1)
  show ?thesis
  proof (cases res)
    case (Inl x)
    show ?thesis
    proof (cases x)
      case (Exception e)
      with Pair Inl run_single_test_call_raises [of sys config tc rt w e w1 lib]
      show ?thesis by blast
    next
      case (BaseException b)
      with Pair Inl assms [of b w1] show ?thesis by simp
    qed
  next
    case (Inr resp)
    note call = Pair [unfolded Inr]
    show ?thesis
    proof (cases "resp_success resp")
      case False
      with run_single_test_call_rejected [OF call, of lib] show ?thesis by blast
    next
      case True
      show ?thesis
      proof (cases "resp_output resp")
        case None
        with run_single_test_no_output_key [OF call True, of lib] show ?thesis by blast
      next
        case (Some out)
        show ?thesis
        proof (cases "validate_output sys out tc")
          case (Inl e)
          with run_single_test_validator_raises [OF call True Some, of e lib] show ?thesis by blast
        next
          case (Inr v)
          with run_single_test_valid_output [OF call True Some, of v lib] show ?thesis by blast
        qed
      qed
    qed
  qed
qed

lemma run_single_test_success_cases:
  assumes "run_single_test lib rt sys config tc w = (Inr r, w')" and "success r"
  shows "\<exists>resp w1 out v.
           call_ai_system sys config (input_data tc) (snd (time_time rt w)) = (Inr resp, w1) \<and>
           resp_success resp \<and> resp_output resp = Some out \<and>
           validate_output sys out tc = Inr v \<and> vr_valid v"
proof (cases "call_ai_system sys config (input_data tc) (snd (time_time rt w))")
  case (Pair res w1)
  show ?thesis
  proof (cases res)
    case (Inl x)
    show ?thesis
    proof (cases x)
      case (Exception e)
      with Pair Inl run_single_test_call_raises [of sys config tc rt w e w1 lib] assms
      show ?thesis by auto
    next
      case (BaseException b)
      with Pair Inl run_single_test_call_propagates [of sys config tc rt w b w1 lib] assms
      show ?thesis by simp
    qed
  next
    case (Inr resp)
    note call = Pair [unfolded Inr]
    show ?thesis
    proof (cases "resp_success resp")
      case False
      with run_single_test_call_rejected [OF call, of lib] assms show ?thesis by auto
    next
      case True
      show ?thesis
      proof (cases "resp_output resp")
        case None
        with run_single_test_no_output_key [OF call True, of lib] assms show ?thesis by auto
      next
        case (Some out)
        show ?thesis
        proof (cases "validate_output sys out tc")
          case (Inl e)
          with run_single_test_validator_raises [OF call True Some, of e lib] assms
          show ?thesis by auto
        next
          case (Inr v)
          with run_single_test_valid_output [OF call True Some, of v lib] assms
          have "vr_valid v" by auto
          with call True Some Inr show ?thesis by blast
        qed
      qed
    qed
  qed
qed

text \<open>
  Claim C2. A result with \<open>success = true\<close> comes from a call that succeeded, returned
  an output, and whose output the validator judged valid; when the call succeeded and the
  validator rejects the output, the result has \<open>success = false\<close>.
\<close>

theorem success_only_if_call_succeeded_and_output_valid:
  fixes lib :: "'o pylib" and rt :: "'w runtime" and sys :: "('o, 'i, 'w) AISystemInterface"
    and tc :: "('o, 'i) TestCase"
  shows "(\<forall>r w'. run_single_test lib rt sys config tc w = (Inr r, w') \<and> success r \<longrightarrow>
            (\<exists>resp w1 out v.
               call_ai_system sys config (input_data tc) (snd (time_time rt w)) = (Inr resp, w1) \<and>
               resp_success resp \<and> resp_output resp = Some out \<and>
               validate_output sys out tc = Inr v \<and> vr_valid v)) \<and>
         (\<forall>resp w1 out v.
            call_ai_system sys config (input_data tc) (snd (time_time rt w)) = (Inr resp, w1) \<and>
            resp_success resp \<and> resp_output resp = Some out \<and>
            validate_output sys out tc = Inr v \<and> \<not> vr_valid v \<longrightarrow>
            (\<exists>r w'. run_single_test lib rt sys config tc w = (Inr r, w') \<and> \<not> success r))"
proof (intro conjI allI impI)
  fix r w'
  assume "run_single_test lib rt sys config tc w = (Inr r, w') \<and> success r"
  then show "\<exists>resp w1 out v.
               call_ai_system sys config (input_data tc) (snd (time_time rt w)) = (Inr resp, w1) \<and>
               resp_success resp \<and> resp_output resp = Some out \<and>
               validate_output sys out tc = Inr v \<and> vr_valid v"
    using run_single_test_success_cases [of lib rt sys config tc w r w'] by blast
next
  fix resp w1 out v
  assume "call_ai_system sys config (input_data tc) (snd (time_time rt w)) = (Inr resp, w1) \<and>
            resp_success resp \<and> resp_output resp = Some out \<and>
            validate_output sys out tc = Inr v \<and> \<not> vr_valid v"
  then show "\<exists>r w'. run_single_test lib rt sys config tc w = (Inr r, w') \<and> \<not> success r"
    using run_single_test_valid_output [of sys config tc rt w resp w1 out v lib] by auto
qed


theorem success_only_if_call_succeeded_and_output_valid_witness:
  "map_sum id success (fst (run_single_test example_lib example_runtime example_system
      example_config example_test_case \<lparr>clock = 0, script = [ok_response ''4'']\<rparr>)) = Inr True \<and>
   map_sum id success (fst (run_single_test example_lib example_runtime example_system
      example_config example_test_case \<lparr>clock = 0, script = [ok_response ''x'']\<rparr>)) = Inr False \<and>
   map_sum id vr_valid (validate_output example_system (Some ''4'') example_test_case) = Inr True \<and>
   map_sum id vr_valid (validate_output example_system (Some ''x'') example_test_case) = Inr False"
  using success_only_if_call_succeeded_and_output_valid
          [of example_lib example_runtime example_system example_config example_test_case
              "\<lparr>clock = 0, script = [ok_response ''4'']\<rparr>"]
        success_only_if_call_succeeded_and_output_valid
          [of example_lib example_runtime example_system example_config example_test_case
              "\<lparr>clock = 0, script = [ok_response ''x'']\<rparr>"]
  by (simp add: run_defs validate_defs example_defs)



text \<open>
  Claim C10. When the type check and the pattern check pass and the custom validation
  function raises, \<open>validate_output\<close> returns \<open>valid = true\<close> with the exception as its
  only issue and the quality 0.8, and a trial whose call succeeded with that output
  gives a result with \<open>success = true\<close>.
\<close>

theorem custom_validator_exception_keeps_valid:
  fixes lib :: "'o pylib" and rt :: "'w runtime" and sys :: "('o, 'i, 'w) AISystemInterface"
    and tc :: "('o, 'i) TestCase"
  assumes "type_check_passes lib out tc" and "pattern_check_passes lib out tc"
    and "validation_function tc = Some f" and "f out = Inl e"
  shows "ProductionAISystem_validate_output lib out tc =
           Inr \<lparr>vr_valid = True,
                vr_issues = [''Validation function error: '' @ str_exn e],
                vr_quality_score = 0.8\<rparr> \<and>
         (validate_output sys = ProductionAISystem_validate_output lib \<and>
          call_ai_system sys config (input_data tc) (snd (time_time rt w)) = (Inr resp, w1) \<and>
          resp_success resp \<and> resp_output resp = Some out
          \<longrightarrow> (\<exists>r w'. run_single_test lib rt sys config tc w = (Inr r, w') \<and> success r))"
proof -
  have v: "ProductionAISystem_validate_output lib out tc =
           Inr \<lparr>vr_valid = True,
                vr_issues = [''Validation function error: '' @ str_exn e],
                vr_quality_score = 0.8\<rparr>"
    using assms
    by (simp add: ProductionAISystem_validate_output_def type_validation_passes
        pattern_validation_passes custom_validation_def)
  have "\<exists>r w'. run_single_test lib rt sys config tc w = (Inr r, w') \<and> success r"
    if a: "validate_output sys = ProductionAISystem_validate_output lib \<and>
          call_ai_system sys config (input_data tc) (snd (time_time rt w)) = (Inr resp, w1) \<and>
          resp_success resp \<and> resp_output resp = Some out"
  proof -
    from a v have "validate_output sys out tc = Inr \<lparr>vr_valid = True,
                vr_issues = [''Validation function error: '' @ str_exn e],
                vr_quality_score = 0.8\<rparr>" by simp
    from run_single_test_valid_output [OF _ _ _ this, of config rt w resp w1 lib] a
    show ?thesis by auto
  qed
  with v show ?thesis by blast
qed

theorem custom_validator_exception_keeps_valid_witness:
  "type_check_passes example_lib (Some ''4'')
     (example_test_case\<lparr>validation_function := Some (\<lambda>out. Inl (OtherError ''boom''))\<rparr>) \<and>
   pattern_check_passes example_lib (Some ''4'')
     (example_test_case\<lparr>validation_function := Some (\<lambda>out. Inl (OtherError ''boom''))\<rparr>) \<and>
   ProductionAISystem_validate_output example_lib (Some ''4'')
     (example_test_case\<lparr>validation_function := Some (\<lambda>out. Inl (OtherError ''boom''))\<rparr>)
     = Inr \<lparr>vr_valid = True, vr_issues = [''Validation function error: boom''],
            vr_quality_score = 0.8\<rparr> \<and>
   map_sum id success (fst (run_single_test example_lib example_runtime example_system
      example_config
      (example_test_case\<lparr>validation_function := Some (\<lambda>out. Inl (OtherError ''boom''))\<rparr>)
      \<lparr>clock = 0, script = [ok_response ''4'']\<rparr>)) = Inr True"
proof -
  let ?tc = "example_test_case\<lparr>validation_function := Some (\<lambda>out. Inl (OtherError ''boom''))\<rparr>"
  have t: "type_check_passes example_lib (Some ''4'') ?tc"
    by (simp add: type_check_passes_def example_defs)
  have p: "pattern_check_passes example_lib (Some ''4'') ?tc"
    by (simp add: pattern_check_passes_def example_defs)
  have f: "validation_function ?tc = Some (\<lambda>out. Inl (OtherError ''boom''))" by simp
  have e: "(\<lambda>out::string option. (Inl (OtherError ''boom'') :: exn + custom_result)) (Some ''4'') = Inl (OtherError ''boom'')"
    by simp
  note inst = custom_validator_exception_keeps_valid [OF t p f e, of example_system
      example_config example_runtime "\<lparr>clock = 0, script = [ok_response ''4'']\<rparr>"
      "\<lparr>resp_success = True, resp_output = Some (Some ''4''), resp_error = None\<rparr>"
      "\<lparr>clock = 1, script = []\<rparr>"]
  from inst have v: "ProductionAISystem_validate_output example_lib (Some ''4'') ?tc
     = Inr \<lparr>vr_valid = True, vr_issues = [''Validation function error: boom''],
            vr_quality_score = 0.8\<rparr>" by simp
  from inst have "\<exists>r w'. run_single_test example_lib example_runtime example_system example_config ?tc
      \<lparr>clock = 0, script = [ok_response ''4'']\<rparr> = (Inr r, w') \<and> success r"
    by (simp add: example_system_def example_runtime_def ok_response_def)
  then have "map_sum id success (fst (run_single_test example_lib example_runtime example_system
      example_config ?tc \<lparr>clock = 0, script = [ok_response ''4'']\<rparr>)) = Inr True"
    by auto
  with t p v show ?thesis by simp
qed
subsection \<open>The statistical aggregation\<close>

lemma statistics_mean_nonempty: "xs \<noteq> [] \<Longrightarrow> statistics_mean xs = Inr (mean xs)"
  by (simp add: statistics_mean_def mean_def)

lemma statistics_stdev_two: "1 < length xs \<Longrightarrow> statistics_stdev xs = Inr (sample_stdev xs)"
  by (simp add: statistics_stdev_def sample_stdev_def mean_def Let_def)

lemma quality_scores_of_eq: "quality_scores_of results = defined_qualities results"
  by (induction results) (auto simp: quality_scores_of_def defined_qualities_def List.map_filter_simps split: option.splits)

lemma stringified_outputs_eq:
  "map (\<lambda>r. str_output lib (output_tr r)) (filter (\<lambda>r. output_tr r \<noteq> None) results)
     = stringified_outputs lib results"
  by (induction results) (auto simp: stringified_outputs_def)

lemma card_unique_outputs: "card (unique_outputs_of lib results) = distinct_outputs lib results"
  by (simp only: unique_outputs_of_def distinct_outputs_def stringified_outputs_eq card_set)

lemma stringified_outputs_empty_iff:
  "stringified_outputs lib results = [] \<longleftrightarrow> (\<forall>r \<in> set results. output_tr r = None)"
  by (induction results) (auto simp: stringified_outputs_def split: option.splits)

lemma statistical_analysis_nonempty:
  assumes "results \<noteq> []"
  shows "statistical_analysis lib config tc num_runs results =
     Inr \<lparr>stat_test_case_id = id_tc tc,
          stat_config_hash = get_config_hash lib config,
          stat_num_runs = num_runs,
          stat_success_rate = real (length (filter success results)) / real (length results),
          stat_avg_execution_time_ms = mean (map execution_time_ms results),
          stat_execution_time_std =
            (if 1 < length results then sample_stdev (map execution_time_ms results) else 0),
          stat_avg_quality_score =
            (if defined_qualities results = [] then 0 else mean (defined_qualities results)),
          stat_quality_score_std =
            (if 1 < length (defined_qualities results)
             then sample_stdev (defined_qualities results) else 0),
          stat_consistency_score =
            (if distinct_outputs lib results = 0 then 0
             else 1 / real (distinct_outputs lib results)),
          stat_unique_outputs = distinct_outputs lib results,
          stat_individual_results = results\<rparr>"
proof -
  have fin: "finite (unique_outputs_of lib results)" by (simp add: unique_outputs_of_def)
  have e: "unique_outputs_of lib results \<noteq> {} \<longleftrightarrow> distinct_outputs lib results \<noteq> 0"
    using fin by (simp add: card_unique_outputs [symmetric])
  show ?thesis
    using assms
    by (simp add: statistical_analysis_def Let_def statistics_mean_nonempty statistics_stdev_two
        quality_scores_of_eq card_unique_outputs e)
qed

lemma consistency_bounds:
  "0 \<le> (if (n::nat) = 0 then 0 else 1 / real n)" "(if (n::nat) = 0 then 0 else 1 / real n) \<le> 1"
  by simp_all

lemma distinct_outputs_zero_iff:
  "distinct_outputs lib results = 0 \<longleftrightarrow> (\<forall>r \<in> set results. output_tr r = None)"
  by (simp add: distinct_outputs_def stringified_outputs_empty_iff)

text \<open>
  Claim C1, as amended. For a non-empty sequence of results the consistency score is
  \<open>1/U\<close> when \<open>U \<ge> 1\<close> and 0 when \<open>U = 0\<close>, where \<open>U\<close> is the number of distinct
  stringified outputs of the trials that have an output, successful or not. The score is
  in \<open>[0, 1]\<close>, and is positive exactly when some trial has an output.
\<close>

theorem consistency_score_reciprocal_of_distinct_outputs:
  assumes "results \<noteq> []"
  shows "\<exists>s. statistical_analysis lib config tc num_runs results = Inr s \<and>
           stat_unique_outputs s = distinct_outputs lib results \<and>
           stat_consistency_score s =
             (if distinct_outputs lib results = 0 then 0
              else 1 / real (distinct_outputs lib results)) \<and>
           0 \<le> stat_consistency_score s \<and> stat_consistency_score s \<le> 1 \<and>
           (0 < stat_consistency_score s \<longleftrightarrow> (\<exists>r \<in> set results. output_tr r \<noteq> None))"
proof -
  let ?U = "distinct_outputs lib results"
  have "(0 < (if ?U = 0 then 0 else 1 / real ?U)) \<longleftrightarrow> (\<exists>r \<in> set results. output_tr r \<noteq> None)"
    using distinct_outputs_zero_iff [of lib results] by auto
  then show ?thesis
    using statistical_analysis_nonempty [OF assms, of lib config tc num_runs]
      consistency_bounds [of ?U]
    by simp
qed

lemma run_trials_returns:
  assumes "\<And>c i w b w'. call_ai_system sys c i w \<noteq> (Inl (BaseException b), w')"
  shows "\<exists>rs w'. run_trials lib rt sys config tc n w = (Inr rs, w') \<and> length rs = n"
proof (induction n arbitrary: w)
  case 0
  show ?case by simp
next
  case (Suc n)
  obtain r w1 where r: "run_single_test lib rt sys config tc w = (Inr r, w1)"
    using run_single_test_returns [of sys config tc rt w lib] assms by blast
  obtain rs w2 where "run_trials lib rt sys config tc n (asyncio_sleep rt 1 w1) = (Inr rs, w2)"
    and "length rs = n"
    using Suc.IH [of "asyncio_sleep rt 1 w1"] by blast
  with r show ?case by simp
qed

theorem consistency_score_reciprocal_of_distinct_outputs_witness:
  "[example_result True (Some ''4'') (Some 1), example_result False (Some ''5'') (Some 0.5),
    example_result True (Some ''4'') (Some 1), example_result False None None] \<noteq> [] \<and>
   (\<exists>s. statistical_analysis example_lib example_config example_test_case 4
          [example_result True (Some ''4'') (Some 1), example_result False (Some ''5'') (Some 0.5),
           example_result True (Some ''4'') (Some 1), example_result False None None] = Inr s \<and>
        stat_unique_outputs s = 2 \<and> stat_consistency_score s = 1 / 2)"
proof -
  let ?rs = "[example_result True (Some ''4'') (Some 1), example_result False (Some ''5'') (Some 0.5),
              example_result True (Some ''4'') (Some 1), example_result False None None]"
  have ne: "?rs \<noteq> []" by simp
  have U: "distinct_outputs example_lib ?rs = 2"
    by (simp add: distinct_outputs_def stringified_outputs_def example_result_def example_lib_def)
  from consistency_score_reciprocal_of_distinct_outputs
         [OF ne, of example_lib example_config example_test_case 4] U
  show ?thesis by auto
qed

text \<open>
  When the capability raises nothing outside \<open>Exception\<close>, a run of
  \<open>run_statistical_validation\<close> makes \<open>num_runs\<close> trials, each of which gives a result,
  and aggregates their results with \<open>statistical_analysis\<close>.
\<close>

lemma run_statistical_validation_aggregates:
  assumes "\<And>c i w b w'. call_ai_system sys c i w \<noteq> (Inl (BaseException b), w')"
  shows "\<exists>results w'.
     run_trials lib rt sys config tc (nat num_runs) w = (Inr results, w') \<and>
     length results = nat num_runs \<and>
     run_statistical_validation lib rt sys config tc num_runs w
       = (map_sum Exception id (statistical_analysis lib config tc num_runs results), w')"
proof -
  obtain results w' where "run_trials lib rt sys config tc (nat num_runs) w = (Inr results, w')"
    and "length results = nat num_runs"
    using run_trials_returns [OF assms, of lib rt config tc "nat num_runs" w] by blast
  then show ?thesis
    by (cases "statistical_analysis lib config tc num_runs results")
       (simp_all add: run_statistical_validation_def)
qed

lemma run_statistical_validation_no_runs:
  "num_runs \<le> 0 \<Longrightarrow>
   run_statistical_validation lib rt sys config tc num_runs w
     = (Inl (Exception ZeroDivisionError), w)"
  by (simp add: run_statistical_validation_def statistical_analysis_def)

text \<open>
  Claim C1 as stated fails twice. Two trials that both time out give the consistency
  score 0, which is not in \<open>(0, 1]\<close>. Two trials with the outputs \<open>4\<close> (valid) and \<open>x\<close>
  (rejected by the validator, so the trial is not successful) give the score 1/2: the
  output of the unsuccessful trial is counted.
\<close>

theorem consistency_score_counterexample:
  "map_sum id stat_consistency_score
     (fst (run_statistical_validation example_lib example_runtime example_system example_config
        example_test_case 2 \<lparr>clock = 0, script = []\<rparr>)) = Inr 0 \<and>
   map_sum id (\<lambda>s. (map (\<lambda>r. (success r, output_tr r)) (stat_individual_results s),
                     stat_consistency_score s))
     (fst (run_statistical_validation example_lib example_runtime example_system example_config
        example_test_case 2 \<lparr>clock = 0, script = [ok_response ''4'', ok_response ''x'']\<rparr>))
     = Inr ([(True, Some ''4''), (False, Some ''x'')], 1 / 2)"
  by (simp add: run_statistical_validation_def eval_nat_numeral run_defs example_defs validate_defs
         statistical_analysis_def statistics_mean_def statistics_stdev_def quality_scores_of_def
         unique_outputs_of_def List.map_filter_simps Let_def)

lemma defined_qualities_filter:
  "defined_qualities (filter (\<lambda>r. quality_score r \<noteq> None) results) = defined_qualities results"
  by (induction results) (auto simp: defined_qualities_def)

lemma statistical_analysis_quality_fields:
  assumes "statistical_analysis lib config tc num_runs results = Inr s"
  shows "stat_avg_quality_score s =
           (if defined_qualities results = [] then 0 else mean (defined_qualities results))"
    and "stat_quality_score_std s =
           (if length (defined_qualities results) \<le> 1 then 0
            else sample_stdev (defined_qualities results))"
proof -
  from assms have "results \<noteq> []"
    by (auto simp: statistical_analysis_def)
  from statistical_analysis_nonempty [OF this, of lib config tc num_runs] assms
  show "stat_avg_quality_score s =
           (if defined_qualities results = [] then 0 else mean (defined_qualities results))"
    and "stat_quality_score_std s =
           (if length (defined_qualities results) \<le> 1 then 0
            else sample_stdev (defined_qualities results))"
    by (auto simp: not_less)
qed

text \<open>
  Claim C9. The quality mean and standard deviation of an aggregate are those of the
  defined quality scores only (0 when there is none, and deviation 0 for a single one):
  removing the trials without a quality score changes neither.
\<close>

theorem quality_statistics_over_defined_scores:
  assumes "results \<noteq> []"
  shows "\<exists>s. statistical_analysis lib config tc num_runs results = Inr s \<and>
           stat_avg_quality_score s =
             (if defined_qualities results = [] then 0 else mean (defined_qualities results)) \<and>
           stat_quality_score_std s =
             (if length (defined_qualities results) \<le> 1 then 0
              else sample_stdev (defined_qualities results)) \<and>
           (\<forall>s'. statistical_analysis lib config tc num_runs
                   (filter (\<lambda>r. quality_score r \<noteq> None) results) = Inr s' \<longrightarrow>
                 stat_avg_quality_score s' = stat_avg_quality_score s \<and>
                 stat_quality_score_std s' = stat_quality_score_std s)"
proof -
  obtain s where s: "statistical_analysis lib config tc num_runs results = Inr s"
    using statistical_analysis_nonempty [OF assms, of lib config tc num_runs] by blast
  note fields = statistical_analysis_quality_fields [OF s]
  have "stat_avg_quality_score s' = stat_avg_quality_score s \<and>
        stat_quality_score_std s' = stat_quality_score_std s"
    if s': "statistical_analysis lib config tc num_runs
              (filter (\<lambda>r. quality_score r \<noteq> None) results) = Inr s'" for s'
    using statistical_analysis_quality_fields [OF s'] fields
    by (simp only: defined_qualities_filter)
  with s fields show ?thesis by blast
qed

theorem quality_statistics_over_defined_scores_witness:
  "[example_result True (Some ''4'') (Some 1), example_result False None None] \<noteq> [] \<and>
   (\<exists>s. statistical_analysis example_lib example_config example_test_case 2
          [example_result True (Some ''4'') (Some 1), example_result False None None] = Inr s \<and>
        stat_avg_quality_score s = 1 \<and> stat_quality_score_std s = 0)"
proof -
  let ?rs = "[example_result True (Some ''4'') (Some 1), example_result False None None]"
  have ne: "?rs \<noteq> []" by simp
  have q: "defined_qualities ?rs = [1]"
    by (simp add: defined_qualities_def example_result_def)
  from quality_statistics_over_defined_scores
         [OF ne, of example_lib example_config example_test_case 2] q
  show ?thesis by (auto simp: mean_def)
qed

subsection \<open>The difficulty of test cases\<close>

lemma dict_append_keys:
  "map fst (dict_append k v d) = (if k \<in> set (map fst d) then map fst d else map fst d @ [k])"
  by (induction d) force+

lemma dict_append_nonempty:
  "[] \<notin> set (map snd d) \<Longrightarrow> [] \<notin> set (map snd (dict_append k v d))"
  by (induction d) (auto simp del: set_map split: if_splits)

lemma lookup_list_Nil: "lookup_list [] k = []"
  by (simp add: lookup_list_def)

lemma dict_append_inv: "perf_inv d \<Longrightarrow> perf_inv (dict_append k v d)"
  unfolding perf_inv_def
  using dict_append_nonempty [of d k v]
  by (simp add: dict_append_keys del: set_map)

lemma dict_append_lookup:
  "lookup_list (dict_append k v d) k' = (if k' = k then lookup_list d k @ [v] else lookup_list d k')"
  by (induction d) (auto simp: lookup_list_def)

lemma add_results_inv: "perf_inv d \<Longrightarrow> perf_inv (add_results trs d)"
  by (induction trs arbitrary: d) (simp_all add: add_results_def dict_append_inv)

lemma add_results_lookup:
  "lookup_list (add_results trs d) k =
     lookup_list d k @ map (\<lambda>tr. entry_success_rate (snd tr)) (filter (\<lambda>tr. fst tr = k) trs)"
  by (induction trs arbitrary: d) (simp_all add: add_results_def dict_append_lookup)

lemma fold_add_results_inv:
  "perf_inv d \<Longrightarrow> perf_inv (fold (\<lambda>item perf. add_results (cr_test_case_results (snd item)) perf) crs d)"
  by (induction crs arbitrary: d) (simp_all add: add_results_inv)

lemma fold_add_results_lookup:
  "lookup_list (fold (\<lambda>item perf. add_results (cr_test_case_results (snd item)) perf) crs d) k =
     lookup_list d k @ success_rates_for k crs"
  by (induction crs arbitrary: d) (simp_all add: add_results_lookup success_rates_for_def)

lemma test_case_performance_of_fold:
  "test_case_performance_of crs = fold (\<lambda>item perf. add_results (cr_test_case_results (snd item)) perf) crs []"
  by (simp add: test_case_performance_of_def add_results_def)

lemma test_case_performance_inv: "perf_inv (test_case_performance_of crs)"
  unfolding test_case_performance_of_fold
  by (rule fold_add_results_inv) (simp add: perf_inv_def)

lemma test_case_performance_lookup:
  "lookup_list (test_case_performance_of crs) k = success_rates_for k crs"
  by (simp add: test_case_performance_of_fold fold_add_results_lookup lookup_list_Nil)

lemma test_case_performance_member:
  assumes "(tid, rates) \<in> set (test_case_performance_of crs)"
  shows "rates = success_rates_for tid crs" and "rates \<noteq> []"
proof -
  have inv: "perf_inv (test_case_performance_of crs)" by (rule test_case_performance_inv)
  then have "map_of (test_case_performance_of crs) tid = Some rates"
    using assms by (simp add: perf_inv_def)
  then have "lookup_list (test_case_performance_of crs) tid = rates"
    by (simp add: lookup_list_def)
  then show "rates = success_rates_for tid crs"
    by (simp add: test_case_performance_lookup)
  from inv assms show "rates \<noteq> []" by (force simp: perf_inv_def)
qed

lemma analyze_success_rates_nonempty:
  "rates \<noteq> [] \<Longrightarrow> analyze_success_rates rates = Inr (difficulty_entry_of rates)"
  by (simp add: analyze_success_rates_def difficulty_entry_of_def statistics_mean_nonempty
      statistics_stdev_two)

lemma dict_set_fresh: "k \<notin> set (map fst d) \<Longrightarrow> dict_set k v d = d @ [(k, v)]"
  by (induction d) auto

lemma analyze_items_distinct:
  assumes "distinct (map fst items)" and "[] \<notin> set (map snd items)"
    and "set (map fst items) \<inter> set (map fst acc) = {}"
  shows "analyze_items items acc =
           Inr (acc @ map (\<lambda>kv. (fst kv, difficulty_entry_of (snd kv))) items)"
  using assms
proof (induction items arbitrary: acc)
  case Nil
  show ?case by simp
next
  case (Cons a items)
  obtain k rates where a: "a = (k, rates)" by (cases a)
  from Cons.prems a have fresh: "k \<notin> set (map fst acc)" and ne: "rates \<noteq> []" by auto
  from Cons.prems a have "set (map fst items) \<inter> set (map fst (acc @ [(k, rates')])) = {}" for rates'
    by auto
  with Cons.prems a
  have "analyze_items items (acc @ [(k, difficulty_entry_of rates)]) =
          Inr ((acc @ [(k, difficulty_entry_of rates)])
               @ map (\<lambda>kv. (fst kv, difficulty_entry_of (snd kv))) items)"
    by (intro Cons.IH) auto
  with a fresh ne show ?case
    by (simp add: analyze_success_rates_nonempty dict_set_fresh)
qed

lemma analyze_test_case_difficulty_eq:
  "analyze_test_case_difficulty crs =
     Inr (map (\<lambda>kv. (fst kv, difficulty_entry_of (snd kv))) (test_case_performance_of crs))"
  using test_case_performance_inv [of crs]
    analyze_items_distinct [of "test_case_performance_of crs" "[]"]
  by (simp add: analyze_test_case_difficulty_def perf_inv_def)

lemma analysis_member:
  assumes "analyze_test_case_difficulty crs = Inr analysis" and "(tid, e) \<in> set analysis"
  shows "e = difficulty_entry_of (success_rates_for tid crs)" and "success_rates_for tid crs \<noteq> []"
proof -
  from assms obtain rates where m: "(tid, rates) \<in> set (test_case_performance_of crs)"
    and e: "e = difficulty_entry_of rates"
    by (auto simp: analyze_test_case_difficulty_eq)
  from test_case_performance_member [OF m] e
  show "e = difficulty_entry_of (success_rates_for tid crs)" and "success_rates_for tid crs \<noteq> []"
    by simp_all
qed

lemma difficulty_level_of_iff:
  "difficulty_level_of a = ''easy'' \<longleftrightarrow> 0.8 < a"
  "difficulty_level_of a = ''medium'' \<longleftrightarrow> 0.5 < a \<and> a \<le> 0.8"
  "difficulty_level_of a = ''hard'' \<longleftrightarrow> a \<le> 0.5"
  by (auto simp: difficulty_level_of_def)

lemma difficulty_rank_mono:
  "a \<le> b \<Longrightarrow> difficulty_rank (difficulty_level_of a) \<le> difficulty_rank (difficulty_level_of b)"
  by (auto simp: difficulty_level_of_def difficulty_rank_def)

text \<open>
  Claim C6. The difficulty analysis always returns, and every test case in it has a
  non-empty list of success rates, the mean of the success rates of that test case across
  the configurations as its average, and the assessment \<open>easy\<close> exactly when the mean
  exceeds 0.8, \<open>medium\<close> exactly when it is in \<open>(0.5, 0.8]\<close>, and \<open>hard\<close> exactly when it
  is at most 0.5.
\<close>

theorem difficulty_classification_thresholds:
  "\<exists>analysis. analyze_test_case_difficulty crs = Inr analysis \<and>
     (\<forall>(tid, e) \<in> set analysis.
        success_rates_for tid crs \<noteq> [] \<and>
        da_avg_success_rate e = mean (success_rates_for tid crs) \<and>
        (da_difficulty_assessment e = ''easy'' \<longleftrightarrow> 0.8 < da_avg_success_rate e) \<and>
        (da_difficulty_assessment e = ''medium'' \<longleftrightarrow>
           0.5 < da_avg_success_rate e \<and> da_avg_success_rate e \<le> 0.8) \<and>
        (da_difficulty_assessment e = ''hard'' \<longleftrightarrow> da_avg_success_rate e \<le> 0.5))"
proof -
  obtain analysis where a: "analyze_test_case_difficulty crs = Inr analysis"
    by (simp add: analyze_test_case_difficulty_eq)
  have "success_rates_for tid crs \<noteq> [] \<and>
        da_avg_success_rate e = mean (success_rates_for tid crs) \<and>
        (da_difficulty_assessment e = ''easy'' \<longleftrightarrow> 0.8 < da_avg_success_rate e) \<and>
        (da_difficulty_assessment e = ''medium'' \<longleftrightarrow>
           0.5 < da_avg_success_rate e \<and> da_avg_success_rate e \<le> 0.8) \<and>
        (da_difficulty_assessment e = ''hard'' \<longleftrightarrow> da_avg_success_rate e \<le> 0.5)"
    if "(tid, e) \<in> set analysis" for tid e
    using analysis_member [OF a that]
    by (simp add: difficulty_entry_of_def difficulty_level_of_iff)
  with a show ?thesis by blast
qed

text \<open>
  Claim C7, as amended. A test case whose mean success rate is exactly 0.5 is assessed
  \<open>hard\<close>, one whose mean is exactly 0.8 is assessed \<open>medium\<close>, one whose mean is 0.8001
  is assessed \<open>easy\<close>, and the assessment is monotonic in the mean success rate (in the
  order \<open>hard\<close>, \<open>medium\<close>, \<open>easy\<close>).
\<close>

theorem difficulty_boundaries_and_monotonicity:
  assumes "analyze_test_case_difficulty crs = Inr analysis" and "(tid, e) \<in> set analysis"
    and "analyze_test_case_difficulty crs' = Inr analysis'" and "(tid', e') \<in> set analysis'"
  shows "(da_avg_success_rate e = 0.5 \<longrightarrow> da_difficulty_assessment e = ''hard'') \<and>
         (da_avg_success_rate e = 0.8 \<longrightarrow> da_difficulty_assessment e = ''medium'') \<and>
         (da_avg_success_rate e = 0.8001 \<longrightarrow> da_difficulty_assessment e = ''easy'') \<and>
         (da_avg_success_rate e \<le> da_avg_success_rate e' \<longrightarrow>
            difficulty_rank (da_difficulty_assessment e)
              \<le> difficulty_rank (da_difficulty_assessment e'))"
proof -
  have e: "da_difficulty_assessment e = difficulty_level_of (da_avg_success_rate e)"
    using analysis_member(1) [OF assms(1,2)] by (simp add: difficulty_entry_of_def)
  have e': "da_difficulty_assessment e' = difficulty_level_of (da_avg_success_rate e')"
    using analysis_member(1) [OF assms(3,4)] by (simp add: difficulty_entry_of_def)
  show ?thesis
    unfolding e e' using difficulty_rank_mono [of "da_avg_success_rate e" "da_avg_success_rate e'"]
    by (simp add: difficulty_level_of_def)
qed

lemma example_suite_performance:
  "test_case_performance_of example_suite = [(''t1'', [1, 0]), (''t2'', [1, 3 / 5])]"
  by (simp add: test_case_performance_of_def suite_defs)

theorem difficulty_classification_thresholds_witness:
  "map_sum id (map (\<lambda>kv. (fst kv, da_avg_success_rate (snd kv), da_difficulty_assessment (snd kv))))
     (analyze_test_case_difficulty example_suite)
   = Inr [(''t1'', 1 / 2, ''hard''), (''t2'', 4 / 5, ''medium'')]"
  using difficulty_classification_thresholds [of example_suite]
  by (simp add: analyze_test_case_difficulty_eq example_suite_performance difficulty_entry_of_def
      mean_def difficulty_level_of_def)

theorem difficulty_boundaries_and_monotonicity_witness:
  "\<exists>analysis e e'.
     analyze_test_case_difficulty example_suite = Inr analysis \<and>
     (''t1'', e) \<in> set analysis \<and> (''t2'', e') \<in> set analysis \<and>
     da_avg_success_rate e = 0.5 \<and> da_difficulty_assessment e = ''hard'' \<and>
     da_avg_success_rate e' = 0.8 \<and> da_difficulty_assessment e' = ''medium'' \<and>
     difficulty_rank (da_difficulty_assessment e) \<le> difficulty_rank (da_difficulty_assessment e')"
proof -
  let ?analysis = "map (\<lambda>kv. (fst kv, difficulty_entry_of (snd kv)))
                     (test_case_performance_of example_suite)"
  let ?e = "difficulty_entry_of [1, 0]"
  let ?e' = "difficulty_entry_of [1, 3 / 5]"
  have a: "analyze_test_case_difficulty example_suite = Inr ?analysis"
    by (rule analyze_test_case_difficulty_eq)
  have m: "(''t1'', ?e) \<in> set ?analysis" and m': "(''t2'', ?e') \<in> set ?analysis"
    by (simp_all add: example_suite_performance)
  have v: "da_avg_success_rate ?e = 0.5" and v': "da_avg_success_rate ?e' = 0.8"
    by (simp_all add: difficulty_entry_of_def mean_def)
  note i1 = difficulty_boundaries_and_monotonicity [OF a m a m']
  note i2 = difficulty_boundaries_and_monotonicity [OF a m' a m]
  from i1 v have h: "da_difficulty_assessment ?e = ''hard''" by blast
  from i2 v' have h': "da_difficulty_assessment ?e' = ''medium''" by blast
  from v v' have "da_avg_success_rate ?e \<le> da_avg_success_rate ?e'" by simp
  with i1 have "difficulty_rank (da_difficulty_assessment ?e)
                  \<le> difficulty_rank (da_difficulty_assessment ?e')" by blast
  note h h' this
  with a m m' v v' show ?thesis by blast
qed

text \<open>
  Claim C7 as stated fails at the boundary 0.5: a test case that one configuration always
  passes and another always fails has the mean success rate 0.5 and is assessed \<open>hard\<close>,
  not \<open>medium\<close>.
\<close>

theorem difficulty_boundary_counterexample:
  "map_sum id (map (\<lambda>kv. (fst kv, da_success_rates_by_config (snd kv),
                           da_avg_success_rate (snd kv), da_difficulty_assessment (snd kv))))
     (analyze_test_case_difficulty
        [(''0a1b2c3d'', example_config_result [(''t1'', 1, 1)]),
         (''4e5f6a7b'', example_config_result [(''t1'', 0, 1)])])
   = Inr [(''t1'', [1, 0], 1 / 2, ''hard'')]"
  by (simp add: analyze_test_case_difficulty_def test_case_performance_of_def suite_defs
      analyze_success_rates_def statistics_stdev_def difficulty_level_of_def)

subsection \<open>The ranking of configurations\<close>

lemma rankings_eq:
  "configuration_rankings (analyze_model_comparison lib crs) =
     sort_by_success_rate_reverse (map config_performance_of crs)"
  by (simp add: analyze_model_comparison_def Let_def split: list.splits)

text \<open>
  Claim C8, as amended. The ranking is a rearrangement of the configurations in descending
  order of mean success rate, and configurations with equal mean success rate keep their
  insertion order, whatever their consistency: the consistency is not a sort key.
\<close>

theorem ranking_sorted_by_success_rate_stable:
  "mset (configuration_rankings (analyze_model_comparison lib crs))
     = mset (map config_performance_of crs) \<and>
   sorted_wrt (\<lambda>a b. cp_overall_success_rate a \<ge> cp_overall_success_rate b)
     (configuration_rankings (analyze_model_comparison lib crs)) \<and>
   (\<forall>k. filter (\<lambda>c. cp_overall_success_rate c = k)
          (configuration_rankings (analyze_model_comparison lib crs))
        = filter (\<lambda>c. cp_overall_success_rate c = k) (map config_performance_of crs))"
proof -
  let ?perf = "map config_performance_of crs"
  let ?f = "\<lambda>x. - cp_overall_success_rate x"
  have r: "configuration_rankings (analyze_model_comparison lib crs) = sort_key ?f ?perf"
    by (simp add: rankings_eq sort_by_success_rate_reverse_def)
  have p: "mset (sort_key ?f ?perf) = mset ?perf" by simp
  have "sorted (map ?f (sort_key ?f ?perf))" by (rule sorted_sort_key)
  then have s: "sorted_wrt (\<lambda>a b. cp_overall_success_rate a \<ge> cp_overall_success_rate b)
                  (sort_key ?f ?perf)"
    by (simp add: sorted_wrt_map)
  have "filter (\<lambda>c. cp_overall_success_rate c = k) (sort_key ?f ?perf)
        = filter (\<lambda>c. cp_overall_success_rate c = k) ?perf" for k
    using sort_key_stable [of ?f "- k" ?perf] by simp
  with p s show ?thesis unfolding r by blast
qed

theorem ranking_sorted_by_success_rate_stable_witness:
  "map (\<lambda>c. (cp_config_hash c, cp_overall_success_rate c, cp_avg_consistency c))
     (configuration_rankings (analyze_model_comparison example_lib
        [(''0a1b2c3d'', example_config_result [(''t1'', 2 / 5, 1)]),
         (''4e5f6a7b'', example_config_result [(''t1'', 1, 1 / 2)]),
         (''8c9d0e1f'', example_config_result [(''t1'', 2 / 5, 1 / 5)])]))
   = [(''4e5f6a7b'', 1, 1 / 2), (''0a1b2c3d'', 2 / 5, 1), (''8c9d0e1f'', 2 / 5, 1 / 5)]"
  using ranking_sorted_by_success_rate_stable [of example_lib
        "[(''0a1b2c3d'', example_config_result [(''t1'', 2 / 5, 1)]),
         (''4e5f6a7b'', example_config_result [(''t1'', 1, 1 / 2)]),
         (''8c9d0e1f'', example_config_result [(''t1'', 2 / 5, 1 / 5)])]"]
  by (simp add: rankings_eq sort_by_success_rate_reverse_def config_performance_of_def suite_defs)

text \<open>
  Claim C8 as stated fails: of two configurations with the same mean success rate 1/2,
  the one inserted first is ranked first although its mean consistency, 1/4, is lower
  than the other's, 1.
\<close>

theorem ranking_ignores_consistency_counterexample:
  "map (\<lambda>c. (cp_config_hash c, cp_overall_success_rate c, cp_avg_consistency c))
     (configuration_rankings (analyze_model_comparison example_lib
        [(''0a1b2c3d'', example_config_result [(''t1'', 1 / 2, 1 / 4)]),
         (''4e5f6a7b'', example_config_result [(''t1'', 1 / 2, 1)])]))
   = [(''0a1b2c3d'', 1 / 2, 1 / 4), (''4e5f6a7b'', 1 / 2, 1)]"
  by (simp add: rankings_eq sort_by_success_rate_reverse_def config_performance_of_def suite_defs)

subsection \<open>The identifier of a configuration\<close>

lemma asdict_keys:
  "map fst (asdict c) = [''model_id'', ''model_version'', ''temperature'', ''top_k'', ''top_p'',
     ''max_output_tokens'', ''system_instruction'', ''response_format'', ''response_schema'']"
  by (simp add: asdict_def)

lemma asdict_distinct: "distinct (map fst (asdict c))"
  unfolding asdict_keys by simp

lemma sort_key_permutation:
  assumes "mset kvs = mset kvs'" and "distinct (map fst kvs')"
  shows "sort_key fst kvs = sort_key fst kvs'"
proof -
  from assms(2) have inj: "inj_on fst (set kvs')" by (simp add: distinct_map)
  have perm: "mset kvs' = mset (sort_key fst kvs)" using assms(1) by simp
  have "sorted (map fst (sort_key fst kvs))" by (rule sorted_sort_key)
  with perm inj have "sort_key fst kvs' = sort_key fst kvs" by (rule sort_key_inj_key_eq)
  then show ?thesis by simp
qed

text \<open>
  Claim C5. The identifier is a function of the attribute values alone, and of the
  serialization with sorted keys: two configurations with the same value in every field
  have the same identifier, and a dictionary that holds the fields of a configuration in
  any order of assembly hashes to the identifier of the configuration.
\<close>

theorem config_hash_independent_of_assembly_order:
  assumes "mset items = mset (asdict c)"
    and "model_id c' = model_id c" and "model_version c' = model_version c"
    and "temperature c' = temperature c" and "top_k c' = top_k c" and "top_p c' = top_p c"
    and "max_output_tokens c' = max_output_tokens c"
    and "system_instruction c' = system_instruction c"
    and "response_format c' = response_format c" and "response_schema c' = response_schema c"
  shows "get_config_hash lib c' = get_config_hash lib c \<and>
         take 8 (md5_hexdigest lib (json_dumps lib (JDict items))) = get_config_hash lib c"
proof -
  have "c' = c" using assms(2-) by simp
  moreover have "sort_key fst items = sort_key fst (asdict c)"
    using assms(1) asdict_distinct by (rule sort_key_permutation)
  ultimately show ?thesis by (simp add: get_config_hash_def)
qed

theorem config_hash_independent_of_assembly_order_witness:
  "mset (rev (asdict example_config)) = mset (asdict example_config) \<and>
   get_config_hash example_lib
     \<lparr>model_id = ''ai-model-pro'', model_version = ''v1.0'', temperature = 0.3,
      top_k = Some 40, top_p = Some 0.95, max_output_tokens = 3000,
      system_instruction = None, response_format = ''text'', response_schema = None\<rparr>
     = get_config_hash example_lib example_config \<and>
   take 8 (md5_hexdigest example_lib (json_dumps example_lib (JDict (rev (asdict example_config)))))
     = get_config_hash example_lib example_config"
proof -
  have p: "mset (rev (asdict example_config)) = mset (asdict example_config)" by simp
  from config_hash_independent_of_assembly_order
         [OF p, of "\<lparr>model_id = ''ai-model-pro'', model_version = ''v1.0'', temperature = 0.3,
      top_k = Some 40, top_p = Some 0.95, max_output_tokens = 3000,
      system_instruction = None, response_format = ''text'', response_schema = None\<rparr>"
            example_lib] p
  show ?thesis by (simp add: example_config_def)
qed

text \<open>
  The canonical string of the example configuration, as Python prints it.
\<close>

lemma example_config_string:
  "json_dumps example_lib (JDict (asdict example_config)) =
     ''{'' @ [CHR 0x22] @ ''max_output_tokens'' @ [CHR 0x22] @ '': 3000, '' @
     [CHR 0x22] @ ''model_id'' @ [CHR 0x22] @ '': '' @ [CHR 0x22] @ ''ai-model-pro'' @ [CHR 0x22] @ '', '' @
     [CHR 0x22] @ ''model_version'' @ [CHR 0x22] @ '': '' @ [CHR 0x22] @ ''v1.0'' @ [CHR 0x22] @ '', '' @
     [CHR 0x22] @ ''response_format'' @ [CHR 0x22] @ '': '' @ [CHR 0x22] @ ''text'' @ [CHR 0x22] @ '', '' @
     [CHR 0x22] @ ''response_schema'' @ [CHR 0x22] @ '': null, '' @
     [CHR 0x22] @ ''system_instruction'' @ [CHR 0x22] @ '': null, '' @
     [CHR 0x22] @ ''temperature'' @ [CHR 0x22] @ '': 0.3, '' @
     [CHR 0x22] @ ''top_k'' @ [CHR 0x22] @ '': 40, '' @
     [CHR 0x22] @ ''top_p'' @ [CHR 0x22] @ '': 0.95}''"
  by code_simp

end
